theory Spec2Isabelle
  imports Complex_Main "HOL-Library.Sublist"
begin

section \<open>The eBay inventory client (\<^verbatim>\<open>ebay_inventory.py\<close>)\<close>

text \<open>
  The module has two functions, \<^verbatim>\<open>get_stock\<close> and \<^verbatim>\<open>update_stock\<close>. Each one builds a
  request, hands it to the \<^verbatim>\<open>requests\<close> library, looks at the status code of the answer
  and either returns or raises. The library and the remote service are outside the
  module, so the model takes them as a parameter: a function from the request to either
  the exception that \<^verbatim>\<open>requests.get\<close>/\<^verbatim>\<open>requests.put\<close> raises or the response object it
  returns. Every interaction of the module with the outside (the HTTP call, the call of
  \<^verbatim>\<open>response.json()\<close>, the \<^verbatim>\<open>print\<close>) is recorded, in program order, in a list of
  events returned next to the outcome. An item identifier is a string, as the data
  model of the specification has it, so the f-string that forms the address is a
  concatenation.
\<close>

subsection \<open>Python values, exceptions, requests and responses\<close>

text \<open>
  The values that travel through the module unchanged: the decoded body returned by
  \<^verbatim>\<open>response.json()\<close> and the quantity placed in the request document. A float is
  represented by the rational number it denotes; a dictionary by its items in insertion
  order.
\<close>

datatype pyval =
    PNone
  | PBool bool
  | PInt int
  | PFloat rat
  | PStr string
  | PList "pyval list"
  | PDict "(string \<times> pyval) list"

text \<open>A raised exception: the name of its class and its message (\<^verbatim>\<open>str(e)\<close>).\<close>

datatype exn = Raised (exn_class: string) (exn_message: string)

abbreviation Exception :: "string \<Rightarrow> exn" where
  "Exception msg \<equiv> Raised ''Exception'' msg"

datatype http_method = GET | PUT

text \<open>
  The arguments of \<^verbatim>\<open>requests.get(url, headers=headers)\<close> and of
  \<^verbatim>\<open>requests.put(url, headers=headers, json=data)\<close>. The headers are a dictionary with
  string keys, kept as its items in insertion order; \<open>req_json\<close> is the \<^verbatim>\<open>json=\<close>
  keyword argument, absent for the read.
\<close>

record request =
  req_method :: http_method
  req_url :: string
  req_headers :: "(string \<times> string) list"
  req_json :: "pyval option"

text \<open>
  What the module reads of a response object: \<^verbatim>\<open>response.status_code\<close>,
  \<^verbatim>\<open>response.text\<close> and the outcome of calling \<^verbatim>\<open>response.json()\<close>, which either
  raises or returns the decoded body. The three are independent fields, so every
  response of the library (where the decoded body is determined by the text) is covered.
\<close>

record response =
  status_code :: int
  resp_text :: string
  resp_json :: "exn + pyval"

type_synonym transport = "request \<Rightarrow> exn + response"

datatype event =
    Http request
  | Decode
  | Print string

primrec sent :: "event list \<Rightarrow> request list" where
  "sent [] = []"
| "sent (ev # evs) = (case ev of Http req \<Rightarrow> req # sent evs | _ \<Rightarrow> sent evs)"

subsection \<open>The module\<close>

definition ACCESS_TOKEN :: string where
  "ACCESS_TOKEN = ''YOUR_EBAY_ACCESS_TOKEN''"

definition get_stock :: "transport \<Rightarrow> string \<Rightarrow> event list \<times> (exn + pyval)" where
  "get_stock requests item_id =
    (let url = ''https://api.ebay.com/sell/inventory/v1/inventory_item/'' @ item_id;
         headers = [(''Authorization'', ''Bearer '' @ ACCESS_TOKEN),
                    (''Content-Type'', ''application/json'')];
         req = \<lparr>req_method = GET, req_url = url, req_headers = headers, req_json = None\<rparr>
     in case requests req of
          Inl e \<Rightarrow> ([Http req], Inl e)
        | Inr response \<Rightarrow>
            if status_code response = 200
            then ([Http req, Decode], resp_json response)
            else ([Http req],
                  Inl (Exception (''Error fetching stock: '' @ resp_text response))))"

definition update_stock ::
    "transport \<Rightarrow> string \<Rightarrow> pyval \<Rightarrow> event list \<times> (exn + unit)" where
  "update_stock requests item_id quantity =
    (let url = ''https://api.ebay.com/sell/inventory/v1/inventory_item/'' @ item_id;
         headers = [(''Authorization'', ''Bearer '' @ ACCESS_TOKEN),
                    (''Content-Type'', ''application/json'')];
         data = PDict [(''availability'',
                  PDict [(''ship_to_location_availability'',
                    PDict [(''quantity'', quantity)])])];
         req = \<lparr>req_method = PUT, req_url = url, req_headers = headers, req_json = Some data\<rparr>
     in case requests req of
          Inl e \<Rightarrow> ([Http req], Inl e)
        | Inr response \<Rightarrow>
            if status_code response = 200 \<or> status_code response = 204
            then ([Http req, Print ''Stock updated successfully!''], Inr ())
            else ([Http req],
                  Inl (Exception (''Error updating stock: '' @ resp_text response))))"

subsection \<open>Notation for the statements\<close>

text \<open>
  The request each function sends, written once. These are abbreviations: every
  statement below that mentions one reads with the record written out.
\<close>

abbreviation read_request :: "string \<Rightarrow> request" where
  "read_request item_id \<equiv>
     \<lparr>req_method = GET,
      req_url = ''https://api.ebay.com/sell/inventory/v1/inventory_item/'' @ item_id,
      req_headers = [(''Authorization'', ''Bearer '' @ ACCESS_TOKEN),
                     (''Content-Type'', ''application/json'')],
      req_json = None\<rparr>"

abbreviation write_request :: "string \<Rightarrow> pyval \<Rightarrow> request" where
  "write_request item_id quantity \<equiv>
     \<lparr>req_method = PUT,
      req_url = ''https://api.ebay.com/sell/inventory/v1/inventory_item/'' @ item_id,
      req_headers = [(''Authorization'', ''Bearer '' @ ACCESS_TOKEN),
                     (''Content-Type'', ''application/json'')],
      req_json = Some (PDict [(''availability'',
                   PDict [(''ship_to_location_availability'',
                     PDict [(''quantity'', quantity)])])])\<rparr>"

text \<open>
  The transports of the test suite: \<^verbatim>\<open>mock.return_value = response\<close> answers every
  request with the same response, \<^verbatim>\<open>mock.side_effect = e\<close> raises on every request.
\<close>

definition mock_return :: "response \<Rightarrow> transport" where
  "mock_return response req = Inr response"

definition mock_raise :: "exn \<Rightarrow> transport" where
  "mock_raise e req = Inl e"

text \<open>
  Reading a document along a path of keys, as \<^verbatim>\<open>data['availability'][...]['quantity']\<close>
  does in the test suite; \<open>None\<close> stands for the \<^verbatim>\<open>KeyError\<close> or \<^verbatim>\<open>TypeError\<close> of a
  missing key or of a value that is not a dictionary.
\<close>

primrec lookup_path :: "string list \<Rightarrow> pyval \<Rightarrow> pyval option" where
  "lookup_path [] v = Some v"
| "lookup_path (key # keys) v =
     (case v of
        PDict items \<Rightarrow>
          (case map_of items key of None \<Rightarrow> None | Some w \<Rightarrow> lookup_path keys w)
      | _ \<Rightarrow> None)"

section \<open>The outcome of each branch\<close>

text \<open>
  One equation per branch of the two functions: the transport raised, the status was a
  success status, the status was any other. The events list the requests a call sent.
\<close>

lemma get_stock_transport_error:
  "requests (read_request item_id) = Inl e \<Longrightarrow>
   get_stock requests item_id = ([Http (read_request item_id)], Inl e)"
  by (simp add: get_stock_def)

lemma get_stock_200:
  "requests (read_request item_id) = Inr response \<Longrightarrow> status_code response = 200 \<Longrightarrow>
   get_stock requests item_id = ([Http (read_request item_id), Decode], resp_json response)"
  by (simp add: get_stock_def)

lemma get_stock_not_200:
  "requests (read_request item_id) = Inr response \<Longrightarrow> status_code response \<noteq> 200 \<Longrightarrow>
   get_stock requests item_id
     = ([Http (read_request item_id)],
        Inl (Exception (''Error fetching stock: '' @ resp_text response)))"
  by (simp add: get_stock_def)

lemma update_stock_transport_error:
  "requests (write_request item_id quantity) = Inl e \<Longrightarrow>
   update_stock requests item_id quantity = ([Http (write_request item_id quantity)], Inl e)"
  by (simp add: update_stock_def)

lemma update_stock_200_204:
  "requests (write_request item_id quantity) = Inr response \<Longrightarrow>
   status_code response = 200 \<or> status_code response = 204 \<Longrightarrow>
   update_stock requests item_id quantity
     = ([Http (write_request item_id quantity), Print ''Stock updated successfully!''], Inr ())"
  by (simp add: update_stock_def)

lemma update_stock_not_200_204:
  "requests (write_request item_id quantity) = Inr response \<Longrightarrow>
   status_code response \<noteq> 200 \<Longrightarrow> status_code response \<noteq> 204 \<Longrightarrow>
   update_stock requests item_id quantity
     = ([Http (write_request item_id quantity)],
        Inl (Exception (''Error updating stock: '' @ resp_text response)))"
  by (simp add: update_stock_def)

lemma sent_get_stock:
  "sent (fst (get_stock requests item_id)) = [read_request item_id]"
  by (simp add: get_stock_def Let_def split: sum.split)

lemma sent_update_stock:
  "sent (fst (update_stock requests item_id quantity)) = [write_request item_id quantity]"
  by (simp add: update_stock_def Let_def split: sum.split)

lemma prefixes_differ:
  "''Error fetching stock: '' @ t \<noteq> ''Error updating stock: '' @ t'"
  by simp

section \<open>Properties\<close>

subsection \<open>Reading\<close>

text \<open>
  C1. For every item identifier and every decoded body \<open>B\<close>: when the service answers
  the read with status 200 and \<^verbatim>\<open>response.json()\<close> yields \<open>B\<close>, \<open>get_stock\<close> returns
  exactly \<open>B\<close>. \<open>B\<close> ranges over all values, so no shape is required of it; the events are
  the one request and the one decode.
\<close>

theorem get_stock_returns_body:
  assumes "requests (read_request item_id) = Inr response"
    and "status_code response = 200"
    and "resp_json response = Inr B"
  shows "get_stock requests item_id = ([Http (read_request item_id), Decode], Inr B)"
  using assms by (simp add: get_stock_def)

theorem get_stock_returns_body_scenario:
  "get_stock
     (mock_return \<lparr>status_code = 200, resp_text = '''',
        resp_json = Inr (PDict [(''sku'', PStr ''TEST123''),
          (''availability'', PDict [(''ship_to_location_availability'',
             PDict [(''quantity'', PInt 10)])])])\<rparr>)
     ''TEST123''
   = ([Http (read_request ''TEST123''), Decode],
      Inr (PDict [(''sku'', PStr ''TEST123''),
          (''availability'', PDict [(''ship_to_location_availability'',
             PDict [(''quantity'', PInt 10)])])]))"
  by (rule get_stock_returns_body [where response =
        "\<lparr>status_code = 200, resp_text = '''',
          resp_json = Inr (PDict [(''sku'', PStr ''TEST123''),
            (''availability'', PDict [(''ship_to_location_availability'',
               PDict [(''quantity'', PInt 10)])])])\<rparr>"])
     (simp_all add: mock_return_def)

text \<open>
  C2. For every status other than 200, \<open>get_stock\<close> raises: its outcome is an exception
  whose message contains the response text as a contiguous part. The class of the
  exception is \<^verbatim>\<open>Exception\<close> whatever the status is, so all these statuses give one
  kind of failure; no decode is attempted.
\<close>

theorem get_stock_raises_on_non_200:
  assumes "requests (read_request item_id) = Inr response"
    and "status_code response \<noteq> 200"
  shows "\<exists>msg. get_stock requests item_id
             = ([Http (read_request item_id)], Inl (Exception msg))
           \<and> sublist (resp_text response) msg"
proof (intro exI conjI)
  show "get_stock requests item_id
      = ([Http (read_request item_id)],
         Inl (Exception (''Error fetching stock: '' @ resp_text response)))"
    using assms by (rule get_stock_not_200)
  show "sublist (resp_text response) (''Error fetching stock: '' @ resp_text response)"
    by (rule sublist_append_leftI)
qed

theorem get_stock_raises_on_non_200_scenario:
  "\<exists>msg. get_stock
            (mock_return \<lparr>status_code = 404, resp_text = ''Item not found'',
               resp_json = Inl (Raised ''JSONDecodeError'' ''Expecting value'')\<rparr>)
            ''NONEXISTENT''
          = ([Http (read_request ''NONEXISTENT'')], Inl (Exception msg))
        \<and> sublist ''Item not found'' msg"
  using get_stock_raises_on_non_200 [where requests =
      "mock_return \<lparr>status_code = 404, resp_text = ''Item not found'',
         resp_json = Inl (Raised ''JSONDecodeError'' ''Expecting value'')\<rparr>"
      and item_id = "''NONEXISTENT''"
      and response = "\<lparr>status_code = 404, resp_text = ''Item not found'',
         resp_json = Inl (Raised ''JSONDecodeError'' ''Expecting value'')\<rparr>"]
  by (simp add: mock_return_def)

text \<open>
  C10. \<open>get_stock\<close> calls \<^verbatim>\<open>response.json()\<close> exactly when the transport returned a
  response with status 200. On any other status the outcome is the exception built from
  the response text, whatever \<^verbatim>\<open>response.json()\<close> would have done (\<open>j\<close> is any outcome
  of it, a decode failure included).
\<close>

theorem get_stock_decodes_only_on_200:
  "(Decode \<in> set (fst (get_stock requests item_id))
      \<longleftrightarrow> (\<exists>response. requests (read_request item_id) = Inr response
             \<and> status_code response = 200))
   \<and> (requests (read_request item_id) = Inr response \<and> status_code response \<noteq> 200
      \<longrightarrow> get_stock (requests(read_request item_id := Inr (response\<lparr>resp_json := j\<rparr>)))
              item_id
            = ([Http (read_request item_id)],
               Inl (Exception (''Error fetching stock: '' @ resp_text response))))"
proof (intro conjI impI)
  show "Decode \<in> set (fst (get_stock requests item_id))
      \<longleftrightarrow> (\<exists>response. requests (read_request item_id) = Inr response
             \<and> status_code response = 200)"
    by (simp add: get_stock_def Let_def split: sum.split)
next
  assume a: "requests (read_request item_id) = Inr response \<and> status_code response \<noteq> 200"
  let ?requests = "requests(read_request item_id := Inr (response\<lparr>resp_json := j\<rparr>))"
  have "?requests (read_request item_id) = Inr (response\<lparr>resp_json := j\<rparr>)"
    by simp
  moreover have "status_code (response\<lparr>resp_json := j\<rparr>) \<noteq> 200"
    using a by simp
  ultimately have "get_stock ?requests item_id
      = ([Http (read_request item_id)],
         Inl (Exception (''Error fetching stock: '' @ resp_text (response\<lparr>resp_json := j\<rparr>))))"
    by (rule get_stock_not_200)
  then show "get_stock ?requests item_id
      = ([Http (read_request item_id)],
         Inl (Exception (''Error fetching stock: '' @ resp_text response)))"
    by simp
qed

theorem get_stock_decodes_only_on_200_scenario:
  "Decode \<notin> set (fst (get_stock
      (mock_return \<lparr>status_code = 404, resp_text = ''<html>Not Found</html>'',
         resp_json = Inl (Raised ''JSONDecodeError'' ''Expecting value'')\<rparr>) ''TEST123''))
   \<and> get_stock
      (mock_return \<lparr>status_code = 404, resp_text = ''<html>Not Found</html>'',
         resp_json = Inl (Raised ''JSONDecodeError'' ''Expecting value'')\<rparr>) ''TEST123''
     = ([Http (read_request ''TEST123'')],
        Inl (Exception ''Error fetching stock: <html>Not Found</html>''))"
proof -
  let ?r = "\<lparr>status_code = 404, resp_text = ''<html>Not Found</html>'',
         resp_json = Inl (Raised ''JSONDecodeError'' ''Expecting value'')\<rparr>"
  have upd: "(mock_return ?r)(read_request ''TEST123'' := Inr (?r\<lparr>resp_json := resp_json ?r\<rparr>))
      = mock_return ?r"
    by (rule ext) (simp add: mock_return_def)
  show ?thesis
    using get_stock_decodes_only_on_200 [where requests = "mock_return ?r"
        and response = ?r and item_id = "''TEST123''" and j = "resp_json ?r"]
    unfolding upd by (simp add: mock_return_def)
qed

subsection \<open>Writing\<close>

text \<open>
  C3. For every item identifier and every quantity, \<open>update_stock\<close> sends exactly one
  request, and its \<^verbatim>\<open>json=\<close> document is
  \<^verbatim>\<open>{"availability": {"ship_to_location_availability": {"quantity": q}}}\<close>: reading it
  along the path \<^verbatim>\<open>availability\<close>, \<^verbatim>\<open>ship_to_location_availability\<close>, \<^verbatim>\<open>quantity\<close>
  gives back the quantity unchanged. This holds whatever the transport answers.
\<close>

theorem update_stock_request_body:
  "\<exists>data. map req_json (sent (fst (update_stock requests item_id quantity))) = [Some data]
     \<and> data = PDict [(''availability'',
                PDict [(''ship_to_location_availability'',
                  PDict [(''quantity'', quantity)])])]
     \<and> lookup_path [''availability'', ''ship_to_location_availability'', ''quantity''] data
         = Some quantity"
  by (simp add: sent_update_stock)

theorem update_stock_request_body_scenario:
  "\<exists>data. map req_json (sent (fst (update_stock
        (mock_return \<lparr>status_code = 200, resp_text = '''', resp_json = Inr PNone\<rparr>)
        ''TEST123'' (PInt 50)))) = [Some data]
     \<and> data = PDict [(''availability'',
                PDict [(''ship_to_location_availability'',
                  PDict [(''quantity'', PInt 50)])])]
     \<and> lookup_path [''availability'', ''ship_to_location_availability'', ''quantity''] data
         = Some (PInt 50)"
  by (rule update_stock_request_body)

text \<open>
  C4. When the service answers the write, \<open>update_stock\<close> returns (with no data, the
  unit value) exactly when the status is 200 or 204, and it prints its acknowledgment
  exactly then. For every other status it raises an exception whose message contains
  the response text.
\<close>

theorem update_stock_success_iff:
  assumes "requests (write_request item_id quantity) = Inr response"
  shows "(snd (update_stock requests item_id quantity) = Inr ()
            \<longleftrightarrow> status_code response = 200 \<or> status_code response = 204)
       \<and> (Print ''Stock updated successfully!''
              \<in> set (fst (update_stock requests item_id quantity))
            \<longleftrightarrow> status_code response = 200 \<or> status_code response = 204)
       \<and> (status_code response \<noteq> 200 \<and> status_code response \<noteq> 204 \<longrightarrow>
            (\<exists>msg. update_stock requests item_id quantity
                     = ([Http (write_request item_id quantity)], Inl (Exception msg))
                   \<and> sublist (resp_text response) msg))"
proof (cases "status_code response = 200 \<or> status_code response = 204")
  case True
  with assms show ?thesis
    by (auto simp: update_stock_200_204)
next
  case False
  then have ne: "status_code response \<noteq> 200" "status_code response \<noteq> 204"
    by simp_all
  have out: "update_stock requests item_id quantity
      = ([Http (write_request item_id quantity)],
         Inl (Exception (''Error updating stock: '' @ resp_text response)))"
    using assms ne by (rule update_stock_not_200_204)
  have "sublist (resp_text response) (''Error updating stock: '' @ resp_text response)"
    by (rule sublist_append_leftI)
  with out have "\<exists>msg. update_stock requests item_id quantity
        = ([Http (write_request item_id quantity)], Inl (Exception msg))
      \<and> sublist (resp_text response) msg"
    by blast
  moreover have "snd (update_stock requests item_id quantity) \<noteq> Inr ()"
    by (simp add: out)
  moreover have "Print ''Stock updated successfully!''
      \<notin> set (fst (update_stock requests item_id quantity))"
    by (simp add: out)
  ultimately show ?thesis using False by blast
qed

theorem update_stock_success_iff_scenarios:
  "snd (update_stock
          (mock_return \<lparr>status_code = 200, resp_text = '''', resp_json = Inr PNone\<rparr>)
          ''TEST123'' (PInt 50)) = Inr ()
   \<and> snd (update_stock
          (mock_return \<lparr>status_code = 204, resp_text = '''', resp_json = Inr PNone\<rparr>)
          ''TEST123'' (PInt 30)) = Inr ()
   \<and> snd (update_stock
          (mock_return \<lparr>status_code = 409, resp_text = ''Conflict: Stock already updated'',
             resp_json = Inr PNone\<rparr>)
          ''TEST123'' (PInt 10)) \<noteq> Inr ()
   \<and> (\<exists>msg. update_stock
          (mock_return \<lparr>status_code = 409, resp_text = ''Conflict: Stock already updated'',
             resp_json = Inr PNone\<rparr>)
          ''TEST123'' (PInt 10)
        = ([Http (write_request ''TEST123'' (PInt 10))], Inl (Exception msg))
      \<and> sublist ''Conflict: Stock already updated'' msg)"
  using
    update_stock_success_iff [where requests =
      "mock_return \<lparr>status_code = 200, resp_text = '''', resp_json = Inr PNone\<rparr>"
      and item_id = "''TEST123''" and quantity = "PInt 50"
      and response = "\<lparr>status_code = 200, resp_text = '''', resp_json = Inr PNone\<rparr>"]
    update_stock_success_iff [where requests =
      "mock_return \<lparr>status_code = 204, resp_text = '''', resp_json = Inr PNone\<rparr>"
      and item_id = "''TEST123''" and quantity = "PInt 30"
      and response = "\<lparr>status_code = 204, resp_text = '''', resp_json = Inr PNone\<rparr>"]
    update_stock_success_iff [where requests =
      "mock_return \<lparr>status_code = 409, resp_text = ''Conflict: Stock already updated'',
         resp_json = Inr PNone\<rparr>"
      and item_id = "''TEST123''" and quantity = "PInt 10"
      and response = "\<lparr>status_code = 409, resp_text = ''Conflict: Stock already updated'',
         resp_json = Inr PNone\<rparr>"]
  by (simp add: mock_return_def)

subsection \<open>The request\<close>

text \<open>
  C5. Every call of \<open>get_stock\<close> and every call of \<open>update_stock\<close>, with any identifier,
  quantity and transport, sends one request, and its headers are
  \<^verbatim>\<open>Authorization: Bearer\<close> followed by \<open>ACCESS_TOKEN\<close>, and
  \<^verbatim>\<open>Content-Type: application/json\<close>.
\<close>

theorem requests_carry_headers:
  "map req_headers (sent (fst (get_stock requests item_id)))
     = [[(''Authorization'', ''Bearer '' @ ACCESS_TOKEN),
         (''Content-Type'', ''application/json'')]]
   \<and> map req_headers (sent (fst (update_stock requests' item_id' quantity)))
     = [[(''Authorization'', ''Bearer '' @ ACCESS_TOKEN),
         (''Content-Type'', ''application/json'')]]"
  by (simp add: sent_get_stock sent_update_stock)

text \<open>
  C6. For every identifier, the read is a GET and the write a PUT, both to the base
  address followed by \<^verbatim>\<open>/inventory_item/\<close> and the identifier itself, character for
  character: nothing is checked, changed or encoded. The read and the write of one
  identifier go to the same address.
\<close>

theorem request_address:
  "map (\<lambda>req. (req_method req, req_url req)) (sent (fst (get_stock requests item_id)))
     = [(GET, ''https://api.ebay.com/sell/inventory/v1'' @ ''/inventory_item/'' @ item_id)]
   \<and> map (\<lambda>req. (req_method req, req_url req))
        (sent (fst (update_stock requests' item_id quantity)))
     = [(PUT, ''https://api.ebay.com/sell/inventory/v1'' @ ''/inventory_item/'' @ item_id)]
   \<and> map req_url (sent (fst (get_stock requests item_id)))
     = map req_url (sent (fst (update_stock requests' item_id quantity)))"
  by (simp add: sent_get_stock sent_update_stock)

subsection \<open>Failures\<close>

text \<open>
  C7, as stated, asks that the failure hold the status code next to the response text.
  The exception the module raises is built from the response text alone: two responses
  with the same text and the statuses 404 and 500 give the same outcome, for the read
  and for the write, so the status cannot be read off the failure.
\<close>

theorem failure_value_lacks_status:
  "status_code \<lparr>status_code = 404, resp_text = ''Item not found'', resp_json = Inr PNone\<rparr>
     \<noteq> status_code \<lparr>status_code = 500, resp_text = ''Item not found'', resp_json = Inr PNone\<rparr>
   \<and> get_stock
       (mock_return \<lparr>status_code = 404, resp_text = ''Item not found'', resp_json = Inr PNone\<rparr>)
       ''TEST123''
     = get_stock
       (mock_return \<lparr>status_code = 500, resp_text = ''Item not found'', resp_json = Inr PNone\<rparr>)
       ''TEST123''
   \<and> update_stock
       (mock_return \<lparr>status_code = 404, resp_text = ''Item not found'', resp_json = Inr PNone\<rparr>)
       ''TEST123'' (PInt 10)
     = update_stock
       (mock_return \<lparr>status_code = 500, resp_text = ''Item not found'', resp_json = Inr PNone\<rparr>)
       ''TEST123'' (PInt 10)"
  by (simp add: get_stock_def update_stock_def mock_return_def)

text \<open>
  C7, as the module has it. The failure of either operation is an \<^verbatim>\<open>Exception\<close> whose
  message is the fixed text of the operation followed by the raw response text. It does
  not hold the status code: two answers with the same text and any two statuses that
  are not success statuses give the same outcome, events included.
\<close>

theorem failure_holds_text_only:
  "(requests (read_request item_id) = Inr response
      \<and> requests' (read_request item_id) = Inr response'
      \<and> status_code response \<noteq> 200 \<and> status_code response' \<noteq> 200
      \<and> resp_text response = resp_text response'
    \<longrightarrow> get_stock requests item_id = get_stock requests' item_id
      \<and> snd (get_stock requests item_id)
          = Inl (Exception (''Error fetching stock: '' @ resp_text response)))
   \<and> (requests (write_request item_id quantity) = Inr response
      \<and> requests' (write_request item_id quantity) = Inr response'
      \<and> status_code response \<noteq> 200 \<and> status_code response \<noteq> 204
      \<and> status_code response' \<noteq> 200 \<and> status_code response' \<noteq> 204
      \<and> resp_text response = resp_text response'
    \<longrightarrow> update_stock requests item_id quantity = update_stock requests' item_id quantity
      \<and> snd (update_stock requests item_id quantity)
          = Inl (Exception (''Error updating stock: '' @ resp_text response)))"
  by (simp add: get_stock_not_200 update_stock_not_200_204)

theorem failure_holds_text_only_scenario:
  "get_stock
     (mock_return \<lparr>status_code = 401, resp_text = ''Unauthorized'', resp_json = Inr PNone\<rparr>)
     ''TEST123''
   = get_stock
     (mock_return \<lparr>status_code = 503, resp_text = ''Unauthorized'', resp_json = Inr PNone\<rparr>)
     ''TEST123''
   \<and> snd (get_stock
     (mock_return \<lparr>status_code = 401, resp_text = ''Unauthorized'', resp_json = Inr PNone\<rparr>)
     ''TEST123'')
     = Inl (Exception ''Error fetching stock: Unauthorized'')
   \<and> update_stock
     (mock_return \<lparr>status_code = 401, resp_text = ''Unauthorized'', resp_json = Inr PNone\<rparr>)
     ''TEST123'' (PInt 10)
   = update_stock
     (mock_return \<lparr>status_code = 503, resp_text = ''Unauthorized'', resp_json = Inr PNone\<rparr>)
     ''TEST123'' (PInt 10)
   \<and> snd (update_stock
     (mock_return \<lparr>status_code = 401, resp_text = ''Unauthorized'', resp_json = Inr PNone\<rparr>)
     ''TEST123'' (PInt 10))
     = Inl (Exception ''Error updating stock: Unauthorized'')"
  using failure_holds_text_only [where requests =
      "mock_return \<lparr>status_code = 401, resp_text = ''Unauthorized'', resp_json = Inr PNone\<rparr>"
    and requests' =
      "mock_return \<lparr>status_code = 503, resp_text = ''Unauthorized'', resp_json = Inr PNone\<rparr>"
    and response = "\<lparr>status_code = 401, resp_text = ''Unauthorized'', resp_json = Inr PNone\<rparr>"
    and response' = "\<lparr>status_code = 503, resp_text = ''Unauthorized'', resp_json = Inr PNone\<rparr>"
    and item_id = "''TEST123''" and quantity = "PInt 10"]
  by (auto simp: mock_return_def)

text \<open>
  C8. An exception raised by the transport (a timeout, a lost connection) is the outcome
  of \<open>get_stock\<close> and of \<open>update_stock\<close> as it is, after the single request: it is not
  caught, wrapped or translated, and the request is not sent again. An exception raised
  by \<^verbatim>\<open>response.json()\<close> on a 200 answer is the outcome of \<open>get_stock\<close> as it is.
  \<open>update_stock\<close> never decodes a response, so no decode failure arises in a write.
\<close>

theorem failures_propagate_unchanged:
  "(requests (read_request item_id) = Inl e
      \<longrightarrow> get_stock requests item_id = ([Http (read_request item_id)], Inl e))
   \<and> (requests (write_request item_id quantity) = Inl e
      \<longrightarrow> update_stock requests item_id quantity
            = ([Http (write_request item_id quantity)], Inl e))
   \<and> (requests (read_request item_id) = Inr response \<and> status_code response = 200
        \<and> resp_json response = Inl e
      \<longrightarrow> get_stock requests item_id = ([Http (read_request item_id), Decode], Inl e))
   \<and> Decode \<notin> set (fst (update_stock requests item_id quantity))"
proof (intro conjI impI)
  show "Decode \<notin> set (fst (update_stock requests item_id quantity))"
    by (simp add: update_stock_def Let_def split: sum.split)
qed (simp_all add: get_stock_transport_error update_stock_transport_error get_stock_200)

theorem failures_propagate_unchanged_scenarios:
  "get_stock (mock_raise (Raised ''Timeout'' ''Request timeout'')) ''TEST123''
     = ([Http (read_request ''TEST123'')], Inl (Raised ''Timeout'' ''Request timeout''))
   \<and> update_stock (mock_raise (Raised ''ConnectionError'' ''Connection failed''))
       ''TEST123'' (PInt 10)
     = ([Http (write_request ''TEST123'' (PInt 10))],
        Inl (Raised ''ConnectionError'' ''Connection failed''))
   \<and> get_stock
       (mock_return \<lparr>status_code = 200, resp_text = ''<html>'',
          resp_json = Inl (Raised ''JSONDecodeError'' ''Invalid JSON'')\<rparr>)
       ''TEST123''
     = ([Http (read_request ''TEST123''), Decode],
        Inl (Raised ''JSONDecodeError'' ''Invalid JSON''))"
  using
    failures_propagate_unchanged [where requests =
        "mock_raise (Raised ''Timeout'' ''Request timeout'')"
      and e = "Raised ''Timeout'' ''Request timeout''" and item_id = "''TEST123''"]
    failures_propagate_unchanged [where requests =
        "mock_raise (Raised ''ConnectionError'' ''Connection failed'')"
      and e = "Raised ''ConnectionError'' ''Connection failed''"
      and item_id = "''TEST123''" and quantity = "PInt 10"]
    failures_propagate_unchanged [where requests =
        "mock_return \<lparr>status_code = 200, resp_text = ''<html>'',
           resp_json = Inl (Raised ''JSONDecodeError'' ''Invalid JSON'')\<rparr>"
      and response = "\<lparr>status_code = 200, resp_text = ''<html>'',
           resp_json = Inl (Raised ''JSONDecodeError'' ''Invalid JSON'')\<rparr>"
      and e = "Raised ''JSONDecodeError'' ''Invalid JSON''" and item_id = "''TEST123''"]
  by (simp add: mock_raise_def mock_return_def)

text \<open>
  C9. For every status that is not a success status, the message of the exception of
  \<open>get_stock\<close> is \<^verbatim>\<open>Error fetching stock: \<close> followed by the response text, the message
  of the exception of \<open>update_stock\<close> is \<^verbatim>\<open>Error updating stock: \<close> followed by the
  response text, and the two exceptions differ whatever the two texts are.
\<close>

theorem failure_messages_distinguish:
  assumes "requests (read_request item_id) = Inr response"
    and "status_code response \<noteq> 200"
    and "requests' (write_request item_id' quantity) = Inr response'"
    and "status_code response' \<noteq> 200" and "status_code response' \<noteq> 204"
  shows "\<exists>e e'. snd (get_stock requests item_id) = Inl e
     \<and> snd (update_stock requests' item_id' quantity) = Inl e'
     \<and> exn_message e = ''Error fetching stock: '' @ resp_text response
     \<and> exn_message e' = ''Error updating stock: '' @ resp_text response'
     \<and> prefix ''Error fetching stock: '' (exn_message e)
     \<and> prefix ''Error updating stock: '' (exn_message e')
     \<and> e \<noteq> e'"
proof -
  let ?e = "Exception (''Error fetching stock: '' @ resp_text response)"
  let ?e' = "Exception (''Error updating stock: '' @ resp_text response')"
  have "snd (get_stock requests item_id) = Inl ?e"
    using assms(1,2) by (simp add: get_stock_not_200)
  moreover have "snd (update_stock requests' item_id' quantity) = Inl ?e'"
    using assms(3,4,5) by (simp add: update_stock_not_200_204)
  moreover have "exn_message ?e = ''Error fetching stock: '' @ resp_text response"
    and "exn_message ?e' = ''Error updating stock: '' @ resp_text response'"
    by simp_all
  moreover have "prefix ''Error fetching stock: '' (exn_message ?e)"
    and "prefix ''Error updating stock: '' (exn_message ?e')"
    unfolding exn.sel by (rule prefixI, rule refl)+
  moreover have "?e \<noteq> ?e'"
    using prefixes_differ [of "resp_text response" "resp_text response'"] by simp
  ultimately show ?thesis by blast
qed

theorem failure_messages_distinguish_scenario:
  "\<exists>e e'.
     snd (get_stock
       (mock_return \<lparr>status_code = 500, resp_text = ''Internal server error'',
          resp_json = Inr PNone\<rparr>) ''TEST123'') = Inl e
     \<and> snd (update_stock
       (mock_return \<lparr>status_code = 500, resp_text = ''Internal server error'',
          resp_json = Inr PNone\<rparr>) ''TEST123'' (PInt 10)) = Inl e'
     \<and> exn_message e = ''Error fetching stock: Internal server error''
     \<and> exn_message e' = ''Error updating stock: Internal server error''
     \<and> e \<noteq> e'"
proof -
  let ?r = "\<lparr>status_code = 500, resp_text = ''Internal server error'',
          resp_json = Inr PNone\<rparr>"
  obtain e e' where "snd (get_stock (mock_return ?r) ''TEST123'') = Inl e"
    and "snd (update_stock (mock_return ?r) ''TEST123'' (PInt 10)) = Inl e'"
    and "exn_message e = ''Error fetching stock: '' @ resp_text ?r"
    and "exn_message e' = ''Error updating stock: '' @ resp_text ?r"
    and "e \<noteq> e'"
    using failure_messages_distinguish [where requests = "mock_return ?r"
        and requests' = "mock_return ?r" and response = ?r and response' = ?r
        and item_id = "''TEST123''" and item_id' = "''TEST123''" and quantity = "PInt 10"]
    by (auto simp: mock_return_def)
  then show ?thesis
    by (intro exI [of _ e] exI [of _ e'] conjI) simp_all
qed

end
